theory Spec2Isabelle
  imports Main "HOL-Library.AList" "HOL-Library.Word"
begin

section \<open>The voice sample generator (scripts/generate\_voice\_samples.py)\<close>

text \<open>
  The script asks a speech service for its voices and stores one MP3 sample per voice.
  Everything the script does to the outside is explicit here: the file system is a value
  that is passed along and returned, the synthesis requests sent so far are a log in the
  same value, and what the service and the disk answer is an environment \<open>env\<close>.
  Exceptions are values of the type \<open>exn\<close>; a function that can raise returns a sum with
  \<open>Inl\<close> for the exception.
\<close>

subsection \<open>Paths (pathlib on POSIX)\<close>

text \<open>
  A path is the list of its components below the root. \<open>joinpath p s\<close> is \<open>p / s\<close> of
  pathlib: the string is cut at every slash, empty components and \<open>.\<close> are dropped
  (\<open>..\<close> is kept as it is written), and an absolute string replaces the left operand.
  The file system below is keyed by paths as pathlib spells them.
\<close>

type_synonym path = "string list"

type_synonym bytes = "8 word list"

primrec split_sep :: "string \<Rightarrow> string list" where
  "split_sep [] = [[]]"
| "split_sep (c # cs) =
     (if c = CHR ''/'' then [] # split_sep cs
      else (case split_sep cs of [] \<Rightarrow> [[c]] | w # ws \<Rightarrow> (c # w) # ws))"

definition parse_parts :: "string \<Rightarrow> string list" where
  "parse_parts s = filter (\<lambda>w. w \<noteq> [] \<and> w \<noteq> ''.'') (split_sep s)"

definition is_absolute :: "string \<Rightarrow> bool" where
  "is_absolute s = (case s of [] \<Rightarrow> False | c # _ \<Rightarrow> c = CHR ''/'')"

definition joinpath :: "path \<Rightarrow> string \<Rightarrow> path" where
  "joinpath p s = (if is_absolute s then parse_parts s else p @ parse_parts s)"

definition endswith :: "string \<Rightarrow> string \<Rightarrow> bool" where
  "endswith s suf = (length suf \<le> length s \<and> drop (length s - length suf) s = suf)"

subsection \<open>The file system\<close>

text \<open>
  The files, each with its content, as an association list from paths. Directories are
  not entries of their own: a directory is there when a file below it is, and
  \<open>OUTPUT_DIR.mkdir(parents=True, exist_ok=True)\<close> changes nothing in this model.
\<close>

type_synonym filesystem = "(path \<times> bytes) list"

definition exists_path :: "path \<Rightarrow> filesystem \<Rightarrow> bool" where
  "exists_path p fs = (map_of fs p \<noteq> None)"

definition st_size :: "path \<Rightarrow> filesystem \<Rightarrow> nat" where
  "st_size p fs = (case map_of fs p of None \<Rightarrow> 0 | Some c \<Rightarrow> length c)"

definition unlink :: "path \<Rightarrow> filesystem \<Rightarrow> filesystem" where
  "unlink p fs = AList.delete p fs"

text \<open>
  \<open>d.glob("*.mp3")\<close>: the entries directly in \<open>d\<close> whose name ends in \<open>.mp3\<close>. The star
  of pathlib also matches the empty string and a leading dot, and a pattern without a
  slash does not descend into subdirectories.
\<close>

definition glob_match :: "path \<Rightarrow> path \<Rightarrow> bool" where
  "glob_match d p = (p \<noteq> [] \<and> butlast p = d \<and> endswith (last p) ''.mp3'')"

definition glob_mp3 :: "path \<Rightarrow> filesystem \<Rightarrow> path list" where
  "glob_mp3 d fs = filter (glob_match d) (remdups (map fst fs))"

subsection \<open>Exceptions, the service and the disk\<close>

datatype exn =
    ConnectionError string
  | Timeout string
  | HTTPError nat string
  | JSONDecodeError
  | KeyError string
  | OSError string
  | ValueError string

text \<open>\<open>str(e)\<close>, the text that an \<open>error\<close> result carries. For an \<open>HTTPError\<close> the
  library also puts the status code and the reason phrase into the text; they are left out
  here.\<close>

fun str :: "exn \<Rightarrow> string" where
  "str (ConnectionError m) = m"
| "str (Timeout m) = m"
| "str (HTTPError st url) =
     (if st < 500 then ''Client Error for url: '' else ''Server Error for url: '') @ url"
| "str JSONDecodeError = ''Expecting value''"
| "str (KeyError k) = k"
| "str (OSError m) = m"
| "str (ValueError m) = m"

text \<open>What a request gives: no connection, no answer within the timeout, or a response
  with its status code and its body.\<close>

datatype 'a reply = ConnectionFailed string | TimedOut string | Response nat 'a

text \<open>The body of the voice listing, as \<open>resp.json()["voices"]\<close> reads it: not JSON, JSON
  without the field \<open>voices\<close>, or the list of strings that \<open>get_voices\<close> declares.\<close>

datatype voices_body = NotJson | NoVoicesField | Voices "string list"

text \<open>The JSON body of a synthesis request; \<open>speed\<close> is the factor \<open>1.0\<close> of the source,
  kept as the number 1.\<close>

record payload =
  model :: string
  input :: string
  voice :: string
  response_format :: string
  stream :: bool
  speed :: nat

record request =
  url :: string
  json :: payload
  timeout :: nat

text \<open>What \<open>write_bytes\<close> does: it writes the whole content, or it raises. A write that
  raises leaves the file system as it was (the file could not be opened) or leaves a
  file with some other content behind (it was opened, which empties it, and the write
  stopped).\<close>

datatype write_outcome = Written | WriteFailed string "bytes option"

record env =
  voices_endpoint :: "string \<Rightarrow> voices_body reply"
  speech :: "request list \<Rightarrow> request \<Rightarrow> bytes reply"
  disk :: "filesystem \<Rightarrow> path \<Rightarrow> bytes \<Rightarrow> write_outcome"

record world =
  files :: filesystem
  posts :: "request list"

definition raise_for_status :: "string \<Rightarrow> nat \<Rightarrow> exn option" where
  "raise_for_status u st = (if 400 \<le> st \<and> st < 600 then Some (HTTPError st u) else None)"

definition write_bytes :: "env \<Rightarrow> path \<Rightarrow> bytes \<Rightarrow> filesystem \<Rightarrow> exn option \<times> filesystem" where
  "write_bytes e p data fs =
     (case disk e fs p data of
        Written \<Rightarrow> (None, AList.update p data fs)
      | WriteFailed m None \<Rightarrow> (Some (OSError m), fs)
      | WriteFailed m (Some left) \<Rightarrow> (Some (OSError m), AList.update p left fs))"

subsection \<open>The script\<close>

definition SAMPLE_TEXT :: string where
  "SAMPLE_TEXT = ''Hello Everyone, Welcome to Dexterous!''"

text \<open>\<open>root\<close> is the directory two levels above the script file.\<close>

definition OUTPUT_DIR :: "path \<Rightarrow> path" where
  "OUTPUT_DIR root = joinpath (joinpath root ''web'') ''voice_samples''"

definition get_voices :: "env \<Rightarrow> string \<Rightarrow> exn + string list" where
  "get_voices e api_url =
     (let u = api_url @ ''/v1/audio/voices'' in
      case voices_endpoint e u of
        ConnectionFailed m \<Rightarrow> Inl (ConnectionError m)
      | TimedOut m \<Rightarrow> Inl (Timeout m)
      | Response st body \<Rightarrow>
          (case raise_for_status u st of
             Some x \<Rightarrow> Inl x
           | None \<Rightarrow>
               (case body of
                  NotJson \<Rightarrow> Inl JSONDecodeError
                | NoVoicesField \<Rightarrow> Inl (KeyError ''voices'')
                | Voices vs \<Rightarrow> Inr vs)))"

text \<open>The result dictionary of \<open>generate_sample\<close>, one constructor for each value of its
  key \<open>status\<close>. \<open>Sample_ok\<close> carries the number of bytes written, from which the source
  computes \<open>size_kb\<close>.\<close>

datatype status = Ok | Skipped | Error

datatype sample_result =
    Sample_ok string path nat
  | Sample_skipped string path
  | Sample_error string string

fun status_of :: "sample_result \<Rightarrow> status" where
  "status_of (Sample_ok v p n) = Ok"
| "status_of (Sample_skipped v p) = Skipped"
| "status_of (Sample_error v m) = Error"

fun voice_of :: "sample_result \<Rightarrow> string" where
  "voice_of (Sample_ok v p n) = v"
| "voice_of (Sample_skipped v p) = v"
| "voice_of (Sample_error v m) = v"

definition output_path_of :: "path \<Rightarrow> string \<Rightarrow> path" where
  "output_path_of output_dir v = joinpath output_dir (v @ ''.mp3'')"

definition speech_request :: "string \<Rightarrow> string \<Rightarrow> request" where
  "speech_request api_url v =
     \<lparr>url = api_url @ ''/v1/audio/speech'',
      json = \<lparr>model = ''kokoro'', input = SAMPLE_TEXT, voice = v,
              response_format = ''mp3'', stream = False, speed = 1\<rparr>,
      timeout = 120\<rparr>"

text \<open>The body of the \<open>try\<close> in \<open>generate_sample\<close>: the request is sent (and logged), a
  status of 400 to 599 raises, and the content of any other response is written.\<close>

definition try_body :: "env \<Rightarrow> string \<Rightarrow> string \<Rightarrow> path \<Rightarrow> world \<Rightarrow> (exn + sample_result) \<times> world" where
  "try_body e api_url v output_path w =
     (let rq = speech_request api_url v;
          w1 = w\<lparr>posts := posts w @ [rq]\<rparr>
      in case speech e (posts w) rq of
           ConnectionFailed m \<Rightarrow> (Inl (ConnectionError m), w1)
         | TimedOut m \<Rightarrow> (Inl (Timeout m), w1)
         | Response st content \<Rightarrow>
             (case raise_for_status (url rq) st of
                Some x \<Rightarrow> (Inl x, w1)
              | None \<Rightarrow>
                  (case write_bytes e output_path content (files w1) of
                     (Some x, fs) \<Rightarrow> (Inl x, w1\<lparr>files := fs\<rparr>)
                   | (None, fs) \<Rightarrow>
                       (Inr (Sample_ok v output_path (length content)), w1\<lparr>files := fs\<rparr>))))"

definition generate_sample :: "env \<Rightarrow> string \<Rightarrow> string \<Rightarrow> path \<Rightarrow> world \<Rightarrow> sample_result \<times> world" where
  "generate_sample e api_url v output_dir w =
     (let output_path = output_path_of output_dir v in
      if exists_path output_path (files w) \<and> st_size output_path (files w) > 0
      then (Sample_skipped v output_path, w)
      else (case try_body e api_url v output_path w of
              (Inr r, w') \<Rightarrow> (r, w')
            | (Inl x, w') \<Rightarrow> (Sample_error v (str x), w')))"

record args =
  api_url :: string
  batch_size :: int
  force :: bool

definition default_args :: args where
  "default_args = \<lparr>api_url = ''http://localhost:8880'', batch_size = 3, force = False\<rparr>"

text \<open>\<open>for f in OUTPUT_DIR.glob("*.mp3"): f.unlink()\<close>\<close>

definition clear_samples :: "path \<Rightarrow> filesystem \<Rightarrow> filesystem" where
  "clear_samples d fs = fold unlink (glob_mp3 d fs) fs"

text \<open>The counters \<open>results = {"ok": 0, "skipped": 0, "error": 0}\<close> and
  \<open>results[status] += 1\<close>.\<close>

record tally =
  n_ok :: nat
  n_skipped :: nat
  n_error :: nat

definition no_results :: tally where
  "no_results = \<lparr>n_ok = 0, n_skipped = 0, n_error = 0\<rparr>"

fun count :: "status \<Rightarrow> tally \<Rightarrow> tally" where
  "count Ok t = t\<lparr>n_ok := n_ok t + 1\<rparr>"
| "count Skipped t = t\<lparr>n_skipped := n_skipped t + 1\<rparr>"
| "count Error t = t\<lparr>n_error := n_error t + 1\<rparr>"

definition total :: "tally \<Rightarrow> nat" where
  "total t = n_ok t + n_skipped t + n_error t"

text \<open>
  The pool: one work item per entry of the voice list. The model runs the work items
  one after the other, in the order of the list, each as one step; what happens between
  the lines of two work items that run at the same time is not modelled.
\<close>

fun run_pool :: "env \<Rightarrow> string \<Rightarrow> string list \<Rightarrow> path \<Rightarrow> world \<Rightarrow> sample_result list \<times> world" where
  "run_pool e u [] d w = ([], w)"
| "run_pool e u (v # vs) d w =
     (case generate_sample e u v d w of
        (r, w1) \<Rightarrow> (case run_pool e u vs d w1 of (rs, w2) \<Rightarrow> (r # rs, w2)))"

definition collect :: "sample_result list \<Rightarrow> tally" where
  "collect rs = fold (\<lambda>r. count (status_of r)) rs no_results"

text \<open>
  How \<open>main\<close> ends: \<open>sys.exit(1)\<close>, an exception that nothing catches, or the return
  after the summary. What the script prints, and the time it measures, are left out. The interpreter turns an uncaught exception into exit code 1.
  \<open>ThreadPoolExecutor(max_workers=n)\<close> raises \<open>ValueError\<close> for \<open>n \<le> 0\<close>.
\<close>

datatype ending = SysExit nat | Uncaught exn | Returned tally


definition main :: "env \<Rightarrow> args \<Rightarrow> path \<Rightarrow> world \<Rightarrow> ending \<times> world" where
  "main e a root w =
     (case get_voices e (api_url a) of
        Inl x \<Rightarrow> (SysExit 1, w)
      | Inr voices \<Rightarrow>
          (let w1 = (if force a then w\<lparr>files := clear_samples (OUTPUT_DIR root) (files w)\<rparr> else w)
           in if batch_size a \<le> 0
              then (Uncaught (ValueError ''max_workers must be greater than 0''), w1)
              else (case run_pool e (api_url a) voices (OUTPUT_DIR root) w1 of
                      (rs, w2) \<Rightarrow> (Returned (collect rs), w2))))"

subsection \<open>Example environments\<close>

text \<open>Concrete services, disks and file systems on which the theorems below are
  evaluated.\<close>

definition repo :: path where
  "repo = [''repo'']"

definition empty_world :: world where
  "empty_world = \<lparr>files = [], posts = []\<rparr>"

definition env_ok :: env where
  "env_ok =
     \<lparr>voices_endpoint = (\<lambda>u. Response 200 (Voices [''af_bella'', ''am_adam''])),
      speech = (\<lambda>h r. Response 200 [1, 2, 3]),
      disk = (\<lambda>fs p c. Written)\<rparr>"


text \<open>Every synthesis request is answered with status 500.\<close>

definition env_500 :: env where
  "env_500 = env_ok\<lparr>speech := (\<lambda>h r. Response 500 [])\<rparr>"

text \<open>Every synthesis request is answered with status 200 and an empty body.\<close>

definition env_empty_body :: env where
  "env_empty_body = env_ok\<lparr>speech := (\<lambda>h r. Response 200 [])\<rparr>"

text \<open>No file can be opened for writing.\<close>

definition env_read_only :: env where
  "env_read_only = env_ok\<lparr>disk := (\<lambda>fs p c. WriteFailed ''Read-only file system'' None)\<rparr>"

text \<open>No synthesis request is answered in time.\<close>

definition env_timeout :: env where
  "env_timeout = env_ok\<lparr>speech := (\<lambda>h r. TimedOut ''Read timed out'')\<rparr>"

text \<open>No connection for synthesis requests.\<close>

definition env_refused :: env where
  "env_refused = env_ok\<lparr>speech := (\<lambda>h r. ConnectionFailed ''Connection refused'')\<rparr>"

text \<open>A write stops after the file was opened and leaves one byte.\<close>

definition env_disk_full :: env where
  "env_disk_full = env_ok\<lparr>disk := (\<lambda>fs p c. WriteFailed ''No space left on device'' (Some [1]))\<rparr>"

text \<open>The service lists one voice twice.\<close>

definition env_twice :: env where
  "env_twice = env_ok\<lparr>voices_endpoint := (\<lambda>u. Response 200 (Voices [''af_bella'', ''af_bella'']))\<rparr>"


definition bella_path :: path where
  "bella_path = [''repo'', ''web'', ''voice_samples'', ''af_bella.mp3'']"

text \<open>A sample of \<open>af_bella\<close> is there, next to a file that is no sample.\<close>

definition world_bella :: world where
  "world_bella =
     \<lparr>files = [(bella_path, [9, 9]), ([''repo'', ''web'', ''voice_samples'', ''notes.txt''], [5])],
      posts = []\<rparr>"



section \<open>Properties\<close>

subsection \<open>Paths and the cleanup\<close>

lemma split_sep_plain: "CHR ''/'' \<notin> set s \<Longrightarrow> split_sep s = [s]"
  by (induction s) auto

lemma parse_parts_name:
  assumes "CHR ''/'' \<notin> set v"
  shows "parse_parts (v @ ''.mp3'') = [v @ ''.mp3'']"
proof -
  from assms have "CHR ''/'' \<notin> set (v @ ''.mp3'')" by simp
  then have s: "split_sep (v @ ''.mp3'') = [v @ ''.mp3'']" by (rule split_sep_plain)
  have "length (v @ ''.mp3'') \<ge> 4" by simp
  then have "v @ ''.mp3'' \<noteq> [] \<and> v @ ''.mp3'' \<noteq> ''.''" by auto
  with s show ?thesis by (simp add: parse_parts_def)
qed

lemma not_absolute_name: "CHR ''/'' \<notin> set v \<Longrightarrow> \<not> is_absolute (v @ ''.mp3'')"
  by (cases v) (auto simp: is_absolute_def)

lemma output_path_plain:
  "CHR ''/'' \<notin> set v \<Longrightarrow> output_path_of d v = d @ [v @ ''.mp3'']"
  by (simp add: output_path_of_def joinpath_def parse_parts_name not_absolute_name)



lemma map_of_fold_unlink:
  "map_of (fold unlink ps fs) p = (if p \<in> set ps then None else map_of fs p)"
  by (induction ps arbitrary: fs) (auto simp: unlink_def delete_conv')

lemma set_glob_mp3: "set (glob_mp3 d fs) = {p \<in> fst ` set fs. glob_match d p}"
  by (auto simp: glob_mp3_def)

lemma map_of_clear_samples:
  "map_of (clear_samples d fs) p = (if glob_match d p then None else map_of fs p)"
  by (auto simp: clear_samples_def map_of_fold_unlink set_glob_mp3 map_of_eq_None_iff)

lemma OUTPUT_DIR_repo: "OUTPUT_DIR repo = [''repo'', ''web'', ''voice_samples'']"
  by (simp add: OUTPUT_DIR_def repo_def joinpath_def is_absolute_def parse_parts_def)

lemma bella_path: "output_path_of (OUTPUT_DIR repo) ''af_bella'' = bella_path"
  by (simp add: output_path_plain OUTPUT_DIR_repo bella_path_def)

subsection \<open>The tally\<close>

lemma voice_of_generate_sample: "voice_of (fst (generate_sample e u v d w)) = v"
  by (auto simp: generate_sample_def Let_def split: prod.splits sum.splits)
     (auto simp: try_body_def Let_def split: reply.splits option.splits prod.splits)

lemma voices_of_run_pool: "map voice_of (fst (run_pool e u vs d w)) = vs"
proof (induction vs arbitrary: w)
  case Nil
  show ?case by simp
next
  case (Cons v vs)
  obtain r w1 where g: "generate_sample e u v d w = (r, w1)" by (cases "generate_sample e u v d w")
  obtain rs w2 where p: "run_pool e u vs d w1 = (rs, w2)" by (cases "run_pool e u vs d w1")
  have "voice_of r = v" using voice_of_generate_sample [of e u v d w] g by simp
  moreover have "map voice_of rs = vs" using Cons.IH [of w1] p by simp
  ultimately show ?case using g p by simp
qed

lemma total_count: "total (count s t) = Suc (total t)"
  by (cases s) (simp_all add: total_def)

lemma total_fold_count:
  "total (fold (\<lambda>r. count (status_of r)) rs t) = total t + length rs"
  by (induction rs arbitrary: t) (simp_all add: total_count)

lemma total_collect: "total (collect rs) = length rs"
  by (simp add: collect_def total_fold_count) (simp add: total_def no_results_def)

subsection \<open>The example run of two voices\<close>

lemma get_voices_env_ok: "get_voices env_ok u = Inr [''af_bella'', ''am_adam'']"
  by (simp add: get_voices_def env_ok_def raise_for_status_def)

lemma env_ok_fields:
  "speech env_ok h r = Response 200 [1, 2, 3]" "disk env_ok fs p c = Written"
  by (simp_all add: env_ok_def)

lemma api_url_default: "api_url default_args = ''http://localhost:8880''"
  "batch_size default_args = 3" "force default_args = False"
  by (simp_all add: default_args_def)

lemma main_env_ok:
  "main env_ok default_args repo empty_world =
     (Returned \<lparr>n_ok = 2, n_skipped = 0, n_error = 0\<rparr>,
      \<lparr>files = [(bella_path, [1, 2, 3]), ([''repo'', ''web'', ''voice_samples'', ''am_adam.mp3''], [1, 2, 3])],
       posts = [speech_request ''http://localhost:8880'' ''af_bella'',
                speech_request ''http://localhost:8880'' ''am_adam'']\<rparr>)"
  by (simp add: main_def get_voices_env_ok api_url_default OUTPUT_DIR_repo
      generate_sample_def output_path_plain empty_world_def exists_path_def st_size_def
      try_body_def env_ok_fields raise_for_status_def write_bytes_def Let_def
      collect_def no_results_def bella_path_def)

text \<open>
  Claim C1. A run that reaches its summary has fetched a voice list, holds one result
  for each entry of that list, in the order of the list, and its three counters add up
  to the length of the list.
\<close>

theorem tally_counts_every_voice:
  assumes "main e a root w = (Returned t, w')"
  shows "\<exists>vs rs. get_voices e (api_url a) = Inr vs \<and> map voice_of rs = vs \<and> t = collect rs
           \<and> n_ok t + n_skipped t + n_error t = length vs"
proof (cases "get_voices e (api_url a)")
  case (Inl x)
  with assms show ?thesis by (simp add: main_def)
next
  case (Inr vs)
  define w1 where "w1 = (if force a then w\<lparr>files := clear_samples (OUTPUT_DIR root) (files w)\<rparr> else w)"
  obtain rs w2 where p: "run_pool e (api_url a) vs (OUTPUT_DIR root) w1 = (rs, w2)"
    by (cases "run_pool e (api_url a) vs (OUTPUT_DIR root) w1")
  from assms Inr p have t: "t = collect rs"
    by (simp add: main_def Let_def w1_def split: if_splits)
  have m: "map voice_of rs = vs" using voices_of_run_pool [of e "api_url a" vs "OUTPUT_DIR root" w1] p by simp
  then have "length rs = length vs" by (metis length_map)
  then have "n_ok t + n_skipped t + n_error t = length vs"
    using total_collect [of rs] t by (simp add: total_def)
  with Inr t m show ?thesis by blast
qed

theorem tally_counts_every_voice_witness:
  "main env_ok default_args repo empty_world =
     (Returned \<lparr>n_ok = 2, n_skipped = 0, n_error = 0\<rparr>,
      \<lparr>files = [(bella_path, [1, 2, 3]), ([''repo'', ''web'', ''voice_samples'', ''am_adam.mp3''], [1, 2, 3])],
       posts = [speech_request ''http://localhost:8880'' ''af_bella'',
                speech_request ''http://localhost:8880'' ''am_adam'']\<rparr>)
   \<and> (\<exists>vs rs. get_voices env_ok (api_url default_args) = Inr vs \<and> map voice_of rs = vs
         \<and> \<lparr>n_ok = 2, n_skipped = 0, n_error = 0\<rparr> = collect rs
         \<and> n_ok \<lparr>n_ok = 2, n_skipped = 0, n_error = 0\<rparr> + n_skipped \<lparr>n_ok = 2, n_skipped = 0, n_error = 0\<rparr>
             + n_error \<lparr>n_ok = 2, n_skipped = 0, n_error = 0\<rparr> = length vs)"
  using tally_counts_every_voice [OF main_env_ok] main_env_ok by blast

subsection \<open>Skipping and the cleanup\<close>

text \<open>
  Claim C2. When the output path of a voice holds a file that is not empty,
  \<open>generate_sample\<close> returns \<open>skipped\<close> with that path and returns the world it was
  given: no request is added to the log and no file is changed. The function has no
  force parameter, so this holds whatever the flag was.
\<close>

theorem skip_existing_sample:
  assumes "map_of (files w) (output_path_of d v) = Some c" and "c \<noteq> []"
  shows "generate_sample e u v d w = (Sample_skipped v (output_path_of d v), w)"
  using assms by (simp add: generate_sample_def exists_path_def st_size_def)

theorem skip_existing_sample_witness:
  "map_of (files world_bella) (output_path_of (OUTPUT_DIR repo) ''af_bella'') = Some [9, 9]
   \<and> [9, 9 :: 8 word] \<noteq> []
   \<and> generate_sample env_500 ''http://localhost:8880'' ''af_bella'' (OUTPUT_DIR repo) world_bella =
       (Sample_skipped ''af_bella'' bella_path, world_bella)
   \<and> posts world_bella = []"
proof -
  have f: "map_of (files world_bella) (output_path_of (OUTPUT_DIR repo) ''af_bella'') = Some [9, 9]"
    by (simp add: bella_path world_bella_def)
  have n: "[9, 9 :: 8 word] \<noteq> []" by simp
  show ?thesis
    using skip_existing_sample [OF f n, of env_500 "''http://localhost:8880''"] f
    by (simp add: bella_path) (simp add: world_bella_def)
qed

text \<open>
  Claim C10. The cleanup of \<open>--force\<close> leaves every path as it was, with its content,
  unless the path is a name ending in \<open>.mp3\<close> directly in the output directory.
\<close>

theorem force_cleanup_frame:
  assumes "\<not> (\<exists>name. p = d @ [name] \<and> endswith name ''.mp3'')"
  shows "map_of (clear_samples d fs) p = map_of fs p"
proof -
  have "\<not> glob_match d p"
  proof
    assume g: "glob_match d p"
    then have "p = d @ [last p]" by (metis glob_match_def append_butlast_last_id)
    with g assms show False by (auto simp: glob_match_def)
  qed
  then show ?thesis by (simp add: map_of_clear_samples)
qed

lemma clear_world_bella:
  "clear_samples (OUTPUT_DIR repo) (files world_bella) =
     [([''repo'', ''web'', ''voice_samples'', ''notes.txt''], [5])]"
  by (simp add: clear_samples_def glob_mp3_def glob_match_def endswith_def world_bella_def
      bella_path_def OUTPUT_DIR_repo unlink_def)

theorem force_cleanup_frame_witness:
  "\<not> (\<exists>name. [''repo'', ''web'', ''voice_samples'', ''notes.txt''] = OUTPUT_DIR repo @ [name]
          \<and> endswith name ''.mp3'')
   \<and> map_of (clear_samples (OUTPUT_DIR repo) (files world_bella))
         [''repo'', ''web'', ''voice_samples'', ''notes.txt''] = Some [5]
   \<and> map_of (clear_samples (OUTPUT_DIR repo) (files world_bella)) bella_path = None"
proof -
  have h: "\<not> (\<exists>name. [''repo'', ''web'', ''voice_samples'', ''notes.txt''] = OUTPUT_DIR repo @ [name]
          \<and> endswith name ''.mp3'')"
    by (auto simp: OUTPUT_DIR_repo endswith_def)
  have "map_of (files world_bella) [''repo'', ''web'', ''voice_samples'', ''notes.txt''] = Some [5]"
    by (simp add: world_bella_def bella_path_def)
  with force_cleanup_frame [OF h, of "files world_bella"] h show ?thesis
    by (simp add: clear_world_bella bella_path_def)
qed

subsection \<open>What one work item does\<close>


lemma try_body_other_path:
  "q \<noteq> p \<Longrightarrow> map_of (files (snd (try_body e u v p w))) q = map_of (files w) q"
  by (simp add: try_body_def Let_def write_bytes_def update_conv'
      split: reply.splits option.splits prod.splits write_outcome.splits)

lemma generate_sample_cases:
  "generate_sample e u v d w =
     (if exists_path (output_path_of d v) (files w) \<and> 0 < st_size (output_path_of d v) (files w)
      then (Sample_skipped v (output_path_of d v), w)
      else (case fst (try_body e u v (output_path_of d v) w) of
              Inr r \<Rightarrow> r | Inl x \<Rightarrow> Sample_error v (str x),
            snd (try_body e u v (output_path_of d v) w)))"
  by (simp add: generate_sample_def Let_def split: prod.splits sum.splits)

lemma generate_sample_other_path:
  "q \<noteq> output_path_of d v \<Longrightarrow>
     map_of (files (snd (generate_sample e u v d w))) q = map_of (files w) q"
  by (simp add: generate_sample_cases try_body_other_path)






lemma env_fields:
  "speech env_500 h r = Response 500 []"
  "speech env_timeout h r = TimedOut ''Read timed out''"
  "speech env_refused h r = ConnectionFailed ''Connection refused''"
  "speech env_read_only h r = Response 200 [1, 2, 3]"
  "disk env_read_only fs p c = WriteFailed ''Read-only file system'' None"
  "speech env_disk_full h r = Response 200 [1, 2, 3]"
  "disk env_disk_full fs p c = WriteFailed ''No space left on device'' (Some [1])"
  "speech env_empty_body h r = Response 200 []"
  "disk env_empty_body fs p c = Written"
  "disk env_500 fs p c = Written"
  by (simp_all add: env_500_def env_timeout_def env_refused_def env_read_only_def
      env_disk_full_def env_empty_body_def env_ok_def)



subsection \<open>The exit code\<close>







subsection \<open>Output paths\<close>

lemma distinct_output_paths:
  assumes "distinct vs" and "\<forall>v\<in>set vs. CHR ''/'' \<notin> set v"
  shows "distinct (map (output_path_of d) vs)"
proof -
  have "inj_on (output_path_of d) (set vs)"
  proof (rule inj_onI)
    fix x y assume "x \<in> set vs" "y \<in> set vs" "output_path_of d x = output_path_of d y"
    with assms(2) show "x = y" by (simp add: output_path_plain)
  qed
  with assms(1) show ?thesis by (simp add: distinct_map)
qed

text \<open>
  Claim C8, amended. When the voice list has no entry twice and no voice has a slash
  in its name, the output paths of the work items are pairwise distinct.
\<close>

theorem output_paths_distinct:
  assumes "distinct vs" and "\<forall>v\<in>set vs. CHR ''/'' \<notin> set v"
  shows "distinct (map (output_path_of d) vs)"
  using assms by (rule distinct_output_paths)

theorem output_paths_distinct_witness:
  "distinct [''af_bella'', ''am_adam''] \<and> CHR ''/'' \<notin> set ''af_bella'' \<and> CHR ''/'' \<notin> set ''am_adam''
   \<and> distinct (map (output_path_of (OUTPUT_DIR repo)) [''af_bella'', ''am_adam''])
   \<and> map (output_path_of (OUTPUT_DIR repo)) [''af_bella'', ''am_adam''] =
       [[''repo'', ''web'', ''voice_samples'', ''af_bella.mp3''],
        [''repo'', ''web'', ''voice_samples'', ''am_adam.mp3'']]"
proof -
  have d: "distinct [''af_bella'', ''am_adam'']" by simp
  have p: "\<forall>v\<in>set [''af_bella'', ''am_adam'']. CHR ''/'' \<notin> set v" by simp
  have "map (output_path_of (OUTPUT_DIR repo)) [''af_bella'', ''am_adam''] =
       [[''repo'', ''web'', ''voice_samples'', ''af_bella.mp3''],
        [''repo'', ''web'', ''voice_samples'', ''am_adam.mp3'']]"
    by (simp add: output_path_plain OUTPUT_DIR_repo)
  with output_paths_distinct [OF d p, of "OUTPUT_DIR repo"] show ?thesis by simp
qed

lemma get_voices_env_twice: "get_voices env_twice u = Inr [''af_bella'', ''af_bella'']"
  by (simp add: get_voices_def env_twice_def raise_for_status_def)

text \<open>
  Claim C8 as stated fails when the service lists a voice twice: the two work items
  have the same output path. Two different names can also give one path, \<open>a\<close> and
  \<open>./a\<close>.
\<close>

theorem same_output_path_counterexample:
  "get_voices env_twice ''http://localhost:8880'' = Inr [''af_bella'', ''af_bella'']
   \<and> (0::nat) \<noteq> 1
   \<and> output_path_of (OUTPUT_DIR repo) ([''af_bella'', ''af_bella''] ! 0) = bella_path
   \<and> output_path_of (OUTPUT_DIR repo) ([''af_bella'', ''af_bella''] ! 1) = bella_path
   \<and> ''a'' \<noteq> ''./a''
   \<and> output_path_of (OUTPUT_DIR repo) ''a'' = output_path_of (OUTPUT_DIR repo) ''./a''"
  by (simp add: get_voices_env_twice bella_path)
     (simp add: output_path_of_def joinpath_def is_absolute_def parse_parts_def)

subsection \<open>Failed samples\<close>







subsection \<open>The force flag\<close>











lemma clear_world_bella_files:
  "world_bella\<lparr>files := clear_samples (OUTPUT_DIR repo) (files world_bella)\<rparr> =
     \<lparr>files = [([''repo'', ''web'', ''voice_samples'', ''notes.txt''], [5])], posts = []\<rparr>"
  by (simp add: clear_world_bella) (simp add: world_bella_def)


subsection \<open>Running the batch twice\<close>

lemma generate_sample_skip:
  assumes "map_of (files w) (output_path_of d v) = Some c" and "c \<noteq> []"
  shows "generate_sample e u v d w = (Sample_skipped v (output_path_of d v), w)"
  using assms by (simp add: generate_sample_def exists_path_def st_size_def)

lemma generate_sample_keeps_sample:
  assumes "map_of (files w) q = Some c" and "c \<noteq> []"
  shows "map_of (files (snd (generate_sample e u v d w))) q = Some c"
proof (cases "q = output_path_of d v")
  case True
  with assms show ?thesis by (simp add: generate_sample_skip)
next
  case False
  with assms show ?thesis by (simp add: generate_sample_other_path)
qed

lemma generate_sample_ok_file:
  assumes "generate_sample e u v d w = (Sample_ok v' p n, w')" and "0 < n"
  shows "\<exists>c. map_of (files w') (output_path_of d v) = Some c \<and> c \<noteq> []"
proof -
  let ?p = "output_path_of d v"
  from assms(1) have tb: "try_body e u v ?p w = (Inr (Sample_ok v' p n), w')"
    by (auto simp: generate_sample_def Let_def split: if_splits prod.splits sum.splits)
  then show ?thesis using assms(2)
    by (auto simp: try_body_def Let_def write_bytes_def update_conv'
        split: reply.splits option.splits prod.splits write_outcome.splits)
qed

lemma run_pool_keeps_sample:
  assumes "map_of (files w) q = Some c" and "c \<noteq> []"
  shows "map_of (files (snd (run_pool e u vs d w))) q = Some c"
  using assms
proof (induction vs arbitrary: w)
  case Nil
  then show ?case by simp
next
  case (Cons v vs)
  obtain r w1 where g: "generate_sample e u v d w = (r, w1)" by (cases "generate_sample e u v d w")
  obtain rs w2 where p: "run_pool e u vs d w1 = (rs, w2)" by (cases "run_pool e u vs d w1")
  from generate_sample_keeps_sample [OF Cons.prems, of e u v d] g
  have "map_of (files w1) q = Some c" by simp
  from Cons.IH [OF this Cons.prems(2)] p g show ?case by simp
qed

lemma run_pool_ok_files:
  assumes "\<forall>r\<in>set (fst (run_pool e u vs d w)). \<exists>v p n. r = Sample_ok v p n \<and> 0 < n"
  shows "\<forall>v\<in>set vs. \<exists>c. map_of (files (snd (run_pool e u vs d w))) (output_path_of d v) = Some c \<and> c \<noteq> []"
  using assms
proof (induction vs arbitrary: w)
  case Nil
  show ?case by simp
next
  case (Cons v vs)
  obtain r w1 where g: "generate_sample e u v d w = (r, w1)" by (cases "generate_sample e u v d w")
  obtain rs w2 where p: "run_pool e u vs d w1 = (rs, w2)" by (cases "run_pool e u vs d w1")
  from Cons.prems g p obtain v' q n where r: "r = Sample_ok v' q n" "0 < n" by auto
  from Cons.prems g p have "\<forall>r\<in>set (fst (run_pool e u vs d w1)). \<exists>v p n. r = Sample_ok v p n \<and> 0 < n"
    by simp
  then have rest: "\<forall>v\<in>set vs. \<exists>c. map_of (files (snd (run_pool e u vs d w1))) (output_path_of d v) = Some c \<and> c \<noteq> []"
    by (rule Cons.IH)
  from generate_sample_ok_file [of e u v d w v' q n w1] g r
  obtain c where c: "map_of (files w1) (output_path_of d v) = Some c" "c \<noteq> []" by auto
  from run_pool_keeps_sample [OF c, of e u vs d]
  have "map_of (files (snd (run_pool e u vs d w1))) (output_path_of d v) = Some c" .
  with c(2) rest g p show ?case by auto
qed

lemma run_pool_all_skipped:
  assumes "\<forall>v\<in>set vs. \<exists>c. map_of (files w) (output_path_of d v) = Some c \<and> c \<noteq> []"
  shows "run_pool e u vs d w = (map (\<lambda>v. Sample_skipped v (output_path_of d v)) vs, w)"
  using assms
proof (induction vs)
  case Nil
  show ?case by simp
next
  case (Cons v vs)
  then obtain c where "map_of (files w) (output_path_of d v) = Some c" "c \<noteq> []" by auto
  then have "generate_sample e u v d w = (Sample_skipped v (output_path_of d v), w)"
    by (rule generate_sample_skip)
  moreover from Cons have "run_pool e u vs d w = (map (\<lambda>v. Sample_skipped v (output_path_of d v)) vs, w)"
    by simp
  ultimately show ?case by simp
qed

text \<open>
  Claim C4, amended. When a first run returned \<open>ok\<close> with at least one byte for every
  voice, a second run over the same set of voices, from the world the first run left
  and whatever the service and the disk do then, returns \<open>skipped\<close> for every voice and
  returns that world unchanged: no request is sent and no file is changed.
\<close>

theorem second_run_skips_all:
  assumes "run_pool e1 u vs d w = (rs1, w1)"
    and "\<forall>r\<in>set rs1. \<exists>v p n. r = Sample_ok v p n \<and> 0 < n"
    and "set vs2 = set vs"
  shows "run_pool e2 u2 vs2 d w1 = (map (\<lambda>v. Sample_skipped v (output_path_of d v)) vs2, w1)"
proof -
  from assms(1,2)
  have "\<forall>r\<in>set (fst (run_pool e1 u vs d w)). \<exists>v p n. r = Sample_ok v p n \<and> 0 < n" by simp
  then have "\<forall>v\<in>set vs. \<exists>c. map_of (files (snd (run_pool e1 u vs d w))) (output_path_of d v) = Some c \<and> c \<noteq> []"
    by (rule run_pool_ok_files)
  with assms(1,3) have "\<forall>v\<in>set vs2. \<exists>c. map_of (files w1) (output_path_of d v) = Some c \<and> c \<noteq> []"
    by simp
  then show ?thesis by (rule run_pool_all_skipped)
qed


lemma run_pool_env_ok:
  "run_pool env_ok ''http://localhost:8880'' [''af_bella'', ''am_adam''] (OUTPUT_DIR repo) empty_world =
     ([Sample_ok ''af_bella'' bella_path 3,
       Sample_ok ''am_adam'' [''repo'', ''web'', ''voice_samples'', ''am_adam.mp3''] 3],
      \<lparr>files = [(bella_path, [1, 2, 3]), ([''repo'', ''web'', ''voice_samples'', ''am_adam.mp3''], [1, 2, 3])],
       posts = [speech_request ''http://localhost:8880'' ''af_bella'',
                speech_request ''http://localhost:8880'' ''am_adam'']\<rparr>)"
  by (simp add: OUTPUT_DIR_repo generate_sample_def output_path_plain empty_world_def
      exists_path_def st_size_def try_body_def env_ok_fields raise_for_status_def write_bytes_def
      Let_def bella_path_def)

theorem second_run_skips_all_witness:
  "run_pool env_ok ''http://localhost:8880'' [''af_bella'', ''am_adam''] (OUTPUT_DIR repo) empty_world =
     ([Sample_ok ''af_bella'' bella_path 3,
       Sample_ok ''am_adam'' [''repo'', ''web'', ''voice_samples'', ''am_adam.mp3''] 3],
      \<lparr>files = [(bella_path, [1, 2, 3]), ([''repo'', ''web'', ''voice_samples'', ''am_adam.mp3''], [1, 2, 3])],
       posts = [speech_request ''http://localhost:8880'' ''af_bella'',
                speech_request ''http://localhost:8880'' ''am_adam'']\<rparr>)
   \<and> set [''am_adam'', ''af_bella''] = set [''af_bella'', ''am_adam'']
   \<and> run_pool env_500 ''http://localhost:8880'' [''am_adam'', ''af_bella''] (OUTPUT_DIR repo)
       \<lparr>files = [(bella_path, [1, 2, 3]), ([''repo'', ''web'', ''voice_samples'', ''am_adam.mp3''], [1, 2, 3])],
        posts = [speech_request ''http://localhost:8880'' ''af_bella'',
                 speech_request ''http://localhost:8880'' ''am_adam'']\<rparr> =
     ([Sample_skipped ''am_adam'' [''repo'', ''web'', ''voice_samples'', ''am_adam.mp3''],
       Sample_skipped ''af_bella'' bella_path],
      \<lparr>files = [(bella_path, [1, 2, 3]), ([''repo'', ''web'', ''voice_samples'', ''am_adam.mp3''], [1, 2, 3])],
       posts = [speech_request ''http://localhost:8880'' ''af_bella'',
                speech_request ''http://localhost:8880'' ''am_adam'']\<rparr>)"
proof -
  have a: "\<forall>r\<in>set [Sample_ok ''af_bella'' bella_path 3,
       Sample_ok ''am_adam'' [''repo'', ''web'', ''voice_samples'', ''am_adam.mp3''] 3].
         \<exists>v p n. r = Sample_ok v p n \<and> 0 < n" by simp
  have s: "set [''am_adam'', ''af_bella''] = set [''af_bella'', ''am_adam'']" by auto
  from second_run_skips_all [OF run_pool_env_ok a s, of env_500 "''http://localhost:8880''"]
    run_pool_env_ok s
  show ?thesis by (simp add: output_path_plain OUTPUT_DIR_repo bella_path_def)
qed

text \<open>
  Claim C4 as stated fails when the service answers with status 200 and an empty body:
  the first run returns \<open>ok\<close> for the voice and writes an empty file, and the second run
  does not skip it but sends the request again.
\<close>

theorem second_run_counterexample:
  "run_pool env_empty_body ''http://localhost:8880'' [''af_bella''] (OUTPUT_DIR repo) empty_world =
     ([Sample_ok ''af_bella'' bella_path 0],
      \<lparr>files = [(bella_path, [])], posts = [speech_request ''http://localhost:8880'' ''af_bella'']\<rparr>)
   \<and> run_pool env_empty_body ''http://localhost:8880'' [''af_bella''] (OUTPUT_DIR repo)
       \<lparr>files = [(bella_path, [])], posts = [speech_request ''http://localhost:8880'' ''af_bella'']\<rparr> =
     ([Sample_ok ''af_bella'' bella_path 0],
      \<lparr>files = [(bella_path, [])],
       posts = [speech_request ''http://localhost:8880'' ''af_bella'',
                speech_request ''http://localhost:8880'' ''af_bella'']\<rparr>)"
  by (simp add: generate_sample_def bella_path empty_world_def
      exists_path_def st_size_def try_body_def env_fields raise_for_status_def write_bytes_def
      Let_def)

end
